theory Spec2Isabelle
  imports Complex_Main "HOL-Library.Word"
begin

section \<open>Values of the runtime\<close>

text \<open>
  The prompt is the one string whose characters the service inspects (\<open>trim\<close>,
  \<open>length\<close>), so it is a list of UTF-16 code units, which is what \<open>length\<close> counts.
  Every other string is only compared with ASCII literals, tested for emptiness or pasted
  into a message, and is a \<open>string\<close>. A \<open>Buffer\<close> is a list of bytes.
\<close>

type_synonym code_unit = "16 word"
type_synonym jsstring = "code_unit list"
type_synonym buffer = "8 word list"

text \<open>
  A \<open>number\<close> is a finite value, one of the two infinities, or \<open>NaN\<close>. The service only
  compares numbers with numeric literals: \<open>lt x c\<close> is \<open>x < c\<close> and \<open>gt x c\<close> is
  \<open>x > c\<close> for a literal \<open>c\<close>. Every comparison with \<open>NaN\<close> is false.
\<close>

datatype number = Finite real | PosInfinity | NegInfinity | NaN

definition lt :: "number \<Rightarrow> real \<Rightarrow> bool" where
  "lt x c = (case x of Finite a \<Rightarrow> a < c | PosInfinity \<Rightarrow> False | NegInfinity \<Rightarrow> True
     | NaN \<Rightarrow> False)"

definition gt :: "number \<Rightarrow> real \<Rightarrow> bool" where
  "gt x c = (case x of Finite a \<Rightarrow> a > c | PosInfinity \<Rightarrow> True | NegInfinity \<Rightarrow> False
     | NaN \<Rightarrow> False)"

text \<open>What a \<open>throw\<close> or a rejected promise carries: an \<open>Error\<close> with its message, or
  any other value (the \<open>catch\<close> blocks tell the two apart with \<open>instanceof Error\<close>).\<close>

datatype thrown = Error string | NonError

text \<open>An optional string in a condition: \<open>undefined\<close> and the empty string are falsy.\<close>

definition truthy :: "string option \<Rightarrow> bool" where
  "truthy s = (case s of None \<Rightarrow> False | Some t \<Rightarrow> t \<noteq> [])"

definition strOf :: "string option \<Rightarrow> string" where
  "strOf s = (case s of None \<Rightarrow> [] | Some t \<Rightarrow> t)"

text \<open>A destructuring default \<open>{ field = d } = options\<close>: used when the field is
  \<open>undefined\<close>.\<close>

definition orDefault :: "'a option \<Rightarrow> 'a \<Rightarrow> 'a" where
  "orDefault v d = (case v of None \<Rightarrow> d | Some x \<Rightarrow> x)"

text \<open>\<open>Array.prototype.join(", ")\<close>.\<close>

fun joinComma :: "string list \<Rightarrow> string" where
  "joinComma [] = []"
| "joinComma [x] = x"
| "joinComma (x # y # ys) = x @ '', '' @ joinComma (y # ys)"

text \<open>\<open>String.prototype.trim\<close> removes the white space and line terminators of ECMAScript
  from both ends.\<close>

definition isWhiteSpace :: "code_unit \<Rightarrow> bool" where
  "isWhiteSpace c = (c \<in> set [0x9, 0xA, 0xB, 0xC, 0xD, 0x20, 0xA0, 0x1680,
     0x2000, 0x2001, 0x2002, 0x2003, 0x2004, 0x2005, 0x2006, 0x2007, 0x2008, 0x2009, 0x200A,
     0x2028, 0x2029, 0x202F, 0x205F, 0x3000, 0xFEFF])"

definition trim :: "jsstring \<Rightarrow> jsstring" where
  "trim s = rev (dropWhile isWhiteSpace (rev (dropWhile isWhiteSpace s)))"

section \<open>Options and their validation\<close>

text \<open>The fields of \<open>ImageGenerationOptions\<close> and \<open>VideoGenerationOptions\<close> that the
  service reads. The remaining fields (seed, negative prompt, safety settings and so on) are
  copied into the request unchanged and nothing below depends on them. The request
  configuration has the same fields, so it is a record of the same type with the defaults
  filled in.\<close>

record ImageGenerationOptions =
  aspectRatio :: "string option"
  numberOfImages :: "number option"
  guidanceScale :: "number option"
  outputMimeType :: "string option"
  outputCompressionQuality :: "number option"

record VideoGenerationOptions =
  numberOfVideos :: "number option"
  durationSeconds :: "number option"
  videoAspectRatio :: "string option"
  resolution :: "string option"
  fps :: "number option"

definition validImageAspectRatios :: "string list" where
  "validImageAspectRatios = [''1:1'', ''3:4'', ''4:3'', ''9:16'', ''16:9'']"

definition validMimeTypes :: "string list" where
  "validMimeTypes = [''image/jpeg'', ''image/png'']"

definition validateImageOptions :: "ImageGenerationOptions \<Rightarrow> thrown + unit" where
  "validateImageOptions options =
     (let n = orDefault (numberOfImages options) (Finite 1);
          q = orDefault (outputCompressionQuality options) (Finite 85);
          a = orDefault (aspectRatio options) ''1:1'';
          m = orDefault (outputMimeType options) ''image/jpeg''
      in if lt n 1 \<or> gt n 8 then Inl (Error ''numberOfImages must be between 1 and 8'')
         else if (case guidanceScale options of None \<Rightarrow> False | Some g \<Rightarrow> lt g 1 \<or> gt g 20)
           then Inl (Error ''guidanceScale must be between 1 and 20'')
         else if lt q 1 \<or> gt q 100
           then Inl (Error ''outputCompressionQuality must be between 1 and 100'')
         else if a \<notin> set validImageAspectRatios
           then Inl (Error (''aspectRatio must be one of: '' @ joinComma validImageAspectRatios))
         else if m \<notin> set validMimeTypes
           then Inl (Error (''outputMimeType must be one of: '' @ joinComma validMimeTypes))
         else Inr ())"

definition validVideoAspectRatios :: "string list" where
  "validVideoAspectRatios = [''16:9'', ''9:16'']"

definition validResolutions :: "string list" where
  "validResolutions = [''720p'', ''1080p'']"

definition validateVideoOptions :: "VideoGenerationOptions \<Rightarrow> thrown + unit" where
  "validateVideoOptions options =
     (let n = orDefault (numberOfVideos options) (Finite 1);
          d = orDefault (durationSeconds options) (Finite 5);
          a = orDefault (videoAspectRatio options) ''16:9'';
          r = orDefault (resolution options) ''720p''
      in if lt n 1 \<or> gt n 4 then Inl (Error ''numberOfVideos must be between 1 and 4'')
         else if lt d 2 \<or> gt d 10 then Inl (Error ''durationSeconds must be between 2 and 10'')
         else if (case fps options of None \<Rightarrow> False | Some f \<Rightarrow> lt f 8 \<or> gt f 30)
           then Inl (Error ''fps must be between 8 and 30'')
         else if a \<notin> set validVideoAspectRatios
           then Inl (Error (''aspectRatio must be one of: '' @ joinComma validVideoAspectRatios))
         else if r \<notin> set validResolutions
           then Inl (Error (''resolution must be one of: '' @ joinComma validResolutions))
         else Inr ())"

section \<open>Provider responses\<close>

text \<open>The fields of the SDK's response objects that the service reads. Every field is
  optional in the SDK's types. The \<open>error\<close> of an operation is an object, truthy whenever
  present; it is kept as the text \<open>JSON.stringify\<close> gives for it. An absent \<open>done\<close> is
  falsy and reads as \<open>False\<close>.\<close>

record Image =
  gcsUri :: "string option"
  imageBytes :: "string option"

record GeneratedImage =
  image :: "Image option"

record GenerateImagesResponse =
  generatedImages :: "GeneratedImage list option"

record Video =
  uri :: "string option"
  videoBytes :: "string option"

record GeneratedVideo =
  video :: "Video option"

record GenerateVideosResponse =
  generatedVideos :: "GeneratedVideo list option"

record GenerateVideosOperation =
  name :: "string option"
  isDone :: bool
  error :: "string option"
  response :: "GenerateVideosResponse option"
  metadata :: "string option"

section \<open>The environment of a call\<close>

text \<open>
  What the service calls but does not define. \<open>generateImages\<close> and \<open>generateVideos\<close>
  answer a submission (trimmed prompt and configuration) or reject.
  \<open>getVideosOperation k\<close> is the provider's answer to the \<open>k\<close>-th status refresh of the
  run, counted from 0: any provider, whatever its answers depend on, gives one such sequence
  per run. \<open>timerLateness k\<close> is by how many milliseconds the \<open>k\<close>-th \<open>setTimeout\<close> fires
  late (a timer never fires early), \<open>refreshLatency k\<close> how long the \<open>k\<close>-th refresh
  takes. \<open>fromBase64\<close> is \<open>Buffer.from(_, "base64")\<close> of the runtime.
\<close>

record Env =
  generateImages :: "jsstring \<Rightarrow> ImageGenerationOptions \<Rightarrow> thrown + GenerateImagesResponse"
  generateVideos :: "jsstring \<Rightarrow> VideoGenerationOptions \<Rightarrow> thrown + GenerateVideosOperation"
  getVideosOperation :: "nat \<Rightarrow> thrown + GenerateVideosOperation"
  timerLateness :: "nat \<Rightarrow> nat"
  refreshLatency :: "nat \<Rightarrow> nat"
  fromBase64 :: "string \<Rightarrow> buffer"

text \<open>
  What a call does to the world: \<open>now\<close> is the reading of \<open>Date.now()\<close> in milliseconds,
  \<open>submits\<close> counts the submissions sent to the provider, \<open>sleeps\<close> the completed poll
  delays, and \<open>refreshLog\<close> holds the clock reading at which each status refresh was sent,
  oldest first. The clock only moves forward, and only the sleeps and the refreshes of the
  loop are given a duration: the loop reads the clock nowhere else.
\<close>

record World =
  now :: int
  submits :: nat
  sleeps :: nat
  refreshLog :: "int list"

text \<open>The world after a submission has been sent and answered.\<close>

definition afterSubmit :: "World \<Rightarrow> World" where
  "afterSubmit w = w\<lparr>submits := Suc (submits w)\<rparr>"

section \<open>Image generation\<close>

text \<open>The loop of \<open>generateImage\<close> over \<open>generatedImages\<close>, with \<open>imageBuffers\<close> as its
  accumulator. A \<open>throw\<close> leaves the loop at once.\<close>

fun convertImages :: "(string \<Rightarrow> buffer) \<Rightarrow> GeneratedImage list \<Rightarrow> buffer list \<Rightarrow> thrown + buffer list" where
  "convertImages dec [] imageBuffers = Inr imageBuffers"
| "convertImages dec (generatedImage # rest) imageBuffers =
     (case image generatedImage of
        None \<Rightarrow> convertImages dec rest imageBuffers
      | Some imageData \<Rightarrow>
          if truthy (gcsUri imageData)
          then Inl (Error ''GCS URI handling not implemented. Please avoid using outputGcsUri.'')
          else if truthy (imageBytes imageData)
          then convertImages dec rest (imageBuffers @ [dec (strOf (imageBytes imageData))])
          else convertImages dec rest imageBuffers)"

text \<open>The \<open>catch\<close> block of \<open>generateImage\<close>.\<close>

definition catchImage :: "thrown \<Rightarrow> thrown" where
  "catchImage e = (case e of
       Error m \<Rightarrow> Error (''Image generation failed: '' @ m)
     | NonError \<Rightarrow> Error ''Image generation failed due to an unknown error'')"

text \<open>The body of the \<open>try\<close> block of \<open>generateImage\<close>.\<close>

definition generateImageTry :: "Env \<Rightarrow> jsstring \<Rightarrow> ImageGenerationOptions \<Rightarrow> World \<Rightarrow> (thrown + buffer list) \<times> World" where
  "generateImageTry env prompt config w =
     (let w1 = afterSubmit w in
      case generateImages env (trim prompt) config of
        Inl e \<Rightarrow> (Inl e, w1)
      | Inr res \<Rightarrow>
          (case generatedImages res of
             None \<Rightarrow> (Inl (Error ''No images were generated''), w1)
           | Some imgs \<Rightarrow>
               if length imgs = 0 then (Inl (Error ''No images were generated''), w1)
               else (case convertImages (fromBase64 env) imgs [] of
                       Inl e \<Rightarrow> (Inl e, w1)
                     | Inr imageBuffers \<Rightarrow>
                         if length imageBuffers = 0
                         then (Inl (Error ''No valid image data was found in the response''), w1)
                         else (Inr imageBuffers, w1))))"

text \<open>The request configuration \<open>genImConfig\<close>: the options with the defaults of
  \<open>generateImage\<close>, which are not those of \<open>validateImageOptions\<close> for the MIME type.\<close>

definition genImConfig :: "ImageGenerationOptions \<Rightarrow> ImageGenerationOptions" where
  "genImConfig options = \<lparr>
     aspectRatio = Some (orDefault (aspectRatio options) ''1:1''),
     numberOfImages = Some (orDefault (numberOfImages options) (Finite 1)),
     guidanceScale = guidanceScale options,
     outputMimeType = Some (orDefault (outputMimeType options) ''image/png''),
     outputCompressionQuality = Some (orDefault (outputCompressionQuality options) (Finite 85))\<rparr>"

definition generateImage :: "Env \<Rightarrow> jsstring \<Rightarrow> ImageGenerationOptions \<Rightarrow> World \<Rightarrow> (thrown + buffer list) \<times> World" where
  "generateImage env prompt options w =
     (if prompt = [] \<or> length (trim prompt) = 0
      then (Inl (Error ''Prompt is required and must be a non-empty string''), w)
      else if length prompt > 4000
      then (Inl (Error ''Prompt must be less than 4000 characters''), w)
      else (case validateImageOptions options of
              Inl e \<Rightarrow> (Inl e, w)
            | Inr _ \<Rightarrow>
                (case generateImageTry env prompt (genImConfig options) w of
                   (Inl e, w') \<Rightarrow> (Inl (catchImage e), w')
                 | (Inr imageBuffers, w') \<Rightarrow> (Inr imageBuffers, w'))))"

section \<open>Video generation\<close>

definition maxWaitTime :: int where
  "maxWaitTime = 10 * 60 * 1000"

definition pollInterval :: int where
  "pollInterval = 15 * 1000"

text \<open>The world after the \<open>setTimeout\<close> of a round has fired, and after the refresh of a
  round has been sent and answered.\<close>

definition afterSleep :: "Env \<Rightarrow> World \<Rightarrow> World" where
  "afterSleep env w = w\<lparr>now := now w + pollInterval + int (timerLateness env (sleeps w)),
                          sleeps := Suc (sleeps w)\<rparr>"

definition afterRefresh :: "Env \<Rightarrow> World \<Rightarrow> World" where
  "afterRefresh env w = w\<lparr>refreshLog := refreshLog w @ [now w],
                            now := now w + int (refreshLatency env (length (refreshLog w)))\<rparr>"

text \<open>
  The \<open>while (!operation.done)\<close> loop of \<open>generateVideo\<close>. Each round reads the clock
  and compares it with \<open>startTime\<close>, sleeps for \<open>pollInterval\<close> (plus the timer's
  lateness), and then either sends a refresh, which replaces \<open>operation\<close>, or throws because
  the operation has no name. The result is what leaves the loop (the finished operation, or
  what was thrown) and the world at that moment.
\<close>

function poll :: "Env \<Rightarrow> int \<Rightarrow> GenerateVideosOperation \<Rightarrow> World \<Rightarrow> (thrown + GenerateVideosOperation) \<times> World" where
  "poll env startTime operation w =
     (if isDone operation then (Inr operation, w)
      else if now w - startTime > maxWaitTime
      then (Inl (Error ''Video generation timed out after 10 minutes''), w)
      else (let w1 = afterSleep env w
            in if truthy (name operation)
               then (case getVideosOperation env (length (refreshLog w1)) of
                       Inl e \<Rightarrow> (Inl e, afterRefresh env w1)
                     | Inr operation' \<Rightarrow> poll env startTime operation' (afterRefresh env w1))
               else (Inl (Error ''Operation name is not available for polling''), w1)))"
  by pat_completeness auto
termination
  by (relation "measure (\<lambda>(env, startTime, operation, w). nat (startTime + maxWaitTime + 1 - now w))")
     (auto simp: maxWaitTime_def pollInterval_def afterSleep_def afterRefresh_def)

declare poll.simps [simp del]

definition downloadGcsFile :: "string \<Rightarrow> thrown + buffer" where
  "downloadGcsFile gcsUri' =
     Inl (Error (''GCS file download not implemented. Cannot download from '' @ gcsUri'))"

text \<open>The loop of \<open>generateVideo\<close> over \<open>generatedVideos\<close>, with \<open>videoBuffers\<close> as its
  accumulator. The two tests on \<open>videoData\<close> are separate statements, not an else-chain.\<close>

fun convertVideos :: "(string \<Rightarrow> buffer) \<Rightarrow> GeneratedVideo list \<Rightarrow> buffer list \<Rightarrow> thrown + buffer list" where
  "convertVideos dec [] videoBuffers = Inr videoBuffers"
| "convertVideos dec (generatedVideo # rest) videoBuffers =
     (case video generatedVideo of
        None \<Rightarrow> convertVideos dec rest videoBuffers
      | Some videoData \<Rightarrow>
          (case (if truthy (uri videoData)
                 then (case downloadGcsFile (strOf (uri videoData)) of
                         Inl e \<Rightarrow> Inl e
                       | Inr videoBuffer \<Rightarrow> Inr (videoBuffers @ [videoBuffer]))
                 else Inr videoBuffers) of
             Inl e \<Rightarrow> Inl e
           | Inr videoBuffers1 \<Rightarrow>
               if truthy (videoBytes videoData)
               then convertVideos dec rest (videoBuffers1 @ [dec (strOf (videoBytes videoData))])
               else convertVideos dec rest videoBuffers1))"

text \<open>\<open>operation.response?.generatedVideos\<close>.\<close>

definition resultSet :: "GenerateVideosOperation \<Rightarrow> GeneratedVideo list option" where
  "resultSet operation = (case response operation of None \<Rightarrow> None | Some r \<Rightarrow> generatedVideos r)"

text \<open>What \<open>generateVideo\<close> does with the operation once the loop has ended.\<close>

definition collectVideos :: "(string \<Rightarrow> buffer) \<Rightarrow> GenerateVideosOperation \<Rightarrow> thrown + buffer list" where
  "collectVideos dec operation =
     (case error operation of
        Some err \<Rightarrow> Inl (Error (''Video generation failed: '' @ err))
      | None \<Rightarrow>
          (case resultSet operation of
             None \<Rightarrow> Inl (Error ''No videos were generated'')
           | Some vids \<Rightarrow>
               if length vids = 0 then Inl (Error ''No videos were generated'')
               else (case convertVideos dec vids [] of
                       Inl e \<Rightarrow> Inl e
                     | Inr videoBuffers \<Rightarrow>
                         if length videoBuffers = 0
                         then Inl (Error ''No valid video data was found in the response'')
                         else Inr videoBuffers)))"

text \<open>The \<open>catch\<close> block of \<open>generateVideo\<close>.\<close>

definition catchVideo :: "thrown \<Rightarrow> thrown" where
  "catchVideo e = (case e of
       Error m \<Rightarrow> Error (''Video generation failed: '' @ m)
     | NonError \<Rightarrow> Error ''Video generation failed due to an unknown error'')"

text \<open>The body of the \<open>try\<close> block of \<open>generateVideo\<close>. \<open>startTime\<close> is the clock reading
  after the submission has returned.\<close>

definition generateVideoTry :: "Env \<Rightarrow> jsstring \<Rightarrow> VideoGenerationOptions \<Rightarrow> World \<Rightarrow> (thrown + buffer list) \<times> World" where
  "generateVideoTry env prompt config w =
     (let w1 = afterSubmit w in
      case generateVideos env (trim prompt) config of
        Inl e \<Rightarrow> (Inl e, w1)
      | Inr operation \<Rightarrow>
          (let startTime = now w1 in
           case poll env startTime operation w1 of
             (Inl e, w2) \<Rightarrow> (Inl e, w2)
           | (Inr operation', w2) \<Rightarrow> (collectVideos (fromBase64 env) operation', w2)))"

text \<open>The request configuration \<open>genVidConfig\<close>: the options with the defaults of
  \<open>generateVideo\<close> (a duration of 8 seconds, where \<open>validateVideoOptions\<close> assumes 5).\<close>

definition genVidConfig :: "VideoGenerationOptions \<Rightarrow> VideoGenerationOptions" where
  "genVidConfig options = \<lparr>
     numberOfVideos = Some (orDefault (numberOfVideos options) (Finite 1)),
     durationSeconds = Some (orDefault (durationSeconds options) (Finite 8)),
     videoAspectRatio = Some (orDefault (videoAspectRatio options) ''16:9''),
     resolution = Some (orDefault (resolution options) ''720p''),
     fps = fps options\<rparr>"

definition generateVideo :: "Env \<Rightarrow> jsstring \<Rightarrow> VideoGenerationOptions \<Rightarrow> World \<Rightarrow> (thrown + buffer list) \<times> World" where
  "generateVideo env prompt options w =
     (if prompt = [] \<or> length (trim prompt) = 0
      then (Inl (Error ''Prompt is required and must be a non-empty string''), w)
      else if length prompt > 1000
      then (Inl (Error ''Prompt must be less than 1000 characters for video generation''), w)
      else (case validateVideoOptions options of
              Inl e \<Rightarrow> (Inl e, w)
            | Inr _ \<Rightarrow>
                (case generateVideoTry env prompt (genVidConfig options) w of
                   (Inl e, w') \<Rightarrow> (Inl (catchVideo e), w')
                 | (Inr videoBuffers, w') \<Rightarrow> (Inr videoBuffers, w'))))"

section \<open>Notions of the specification\<close>

text \<open>The rules of the specification's validator: a numeric field lies in a closed range,
  an enumerated field is one of the listed values. An absent field breaks no rule (the
  validators give it a default inside its range). Neither an infinity nor \<open>NaN\<close> lies in
  a range.\<close>

definition inRange :: "real \<Rightarrow> real \<Rightarrow> number option \<Rightarrow> bool" where
  "inRange lo hi v = (case v of None \<Rightarrow> True | Some (Finite x) \<Rightarrow> lo \<le> x \<and> x \<le> hi
     | Some PosInfinity \<Rightarrow> False | Some NegInfinity \<Rightarrow> False | Some NaN \<Rightarrow> False)"

text \<open>What the range checks of the validators let through: a value in the range, and
  \<open>NaN\<close>.\<close>

definition passesRange :: "real \<Rightarrow> real \<Rightarrow> number option \<Rightarrow> bool" where
  "passesRange lo hi v = (case v of None \<Rightarrow> True | Some (Finite x) \<Rightarrow> lo \<le> x \<and> x \<le> hi
     | Some PosInfinity \<Rightarrow> False | Some NegInfinity \<Rightarrow> False | Some NaN \<Rightarrow> True)"

definition oneOf :: "string list \<Rightarrow> string option \<Rightarrow> bool" where
  "oneOf xs v = (case v of None \<Rightarrow> True | Some x \<Rightarrow> x \<in> set xs)"

text \<open>The two variants of a result item: its remote locator and its inline bytes, when
  populated.\<close>

definition videoLocator :: "GeneratedVideo \<Rightarrow> string option" where
  "videoLocator v = (case video v of None \<Rightarrow> None
     | Some d \<Rightarrow> if truthy (uri d) then uri d else None)"

definition videoInline :: "GeneratedVideo \<Rightarrow> string option" where
  "videoInline v = (case video v of None \<Rightarrow> None
     | Some d \<Rightarrow> if truthy (videoBytes d) then videoBytes d else None)"

definition imageLocator :: "GeneratedImage \<Rightarrow> string option" where
  "imageLocator g = (case image g of None \<Rightarrow> None
     | Some d \<Rightarrow> if truthy (gcsUri d) then gcsUri d else None)"

definition imageInline :: "GeneratedImage \<Rightarrow> string option" where
  "imageInline g = (case image g of None \<Rightarrow> None
     | Some d \<Rightarrow> if truthy (imageBytes d) then imageBytes d else None)"

text \<open>A call starts in a world where nothing has been sent yet, at clock reading \<open>t\<close>.\<close>

definition freshWorld :: "int \<Rightarrow> World" where
  "freshWorld t = \<lparr>now = t, submits = 0, sleeps = 0, refreshLog = []\<rparr>"

text \<open>The snapshots of a run: the submitted operation, then the answers to the refreshes.
  A snapshot keeps the loop polling when it is not done and carries its handle.\<close>

definition snapshot :: "Env \<Rightarrow> GenerateVideosOperation \<Rightarrow> nat \<Rightarrow> thrown + GenerateVideosOperation" where
  "snapshot env op0 k = (case k of 0 \<Rightarrow> Inr op0 | Suc j \<Rightarrow> getVideosOperation env j)"

definition pending :: "thrown + GenerateVideosOperation \<Rightarrow> bool" where
  "pending r = (case r of Inl e \<Rightarrow> False | Inr operation \<Rightarrow> \<not> isDone operation \<and> truthy (name operation))"

text \<open>The clock reading at the head of round \<open>k\<close> of a loop entered at \<open>t\<close>, when every
  earlier round slept and refreshed; \<open>sentAt\<close> is when the refresh of round \<open>k\<close> is sent.\<close>

fun headTime :: "Env \<Rightarrow> int \<Rightarrow> nat \<Rightarrow> int" where
  "headTime env t 0 = t"
| "headTime env t (Suc k) =
     headTime env t k + pollInterval + int (timerLateness env k) + int (refreshLatency env k)"

definition sentAt :: "Env \<Rightarrow> int \<Rightarrow> nat \<Rightarrow> int" where
  "sentAt env t k = headTime env t k + pollInterval + int (timerLateness env k)"

text \<open>The world at the head of round \<open>k\<close> of the loop of a call that started in a fresh
  world at \<open>t\<close>: one submission, \<open>k\<close> sleeps and \<open>k\<close> refreshes, sent at
  \<open>sentAt env t 0\<close>, ..., \<open>sentAt env t (k - 1)\<close>.\<close>

definition worldAt :: "Env \<Rightarrow> int \<Rightarrow> nat \<Rightarrow> World" where
  "worldAt env t k = \<lparr>now = headTime env t k, submits = 1, sleeps = k,
                       refreshLog = map (sentAt env t) [0..<k]\<rparr>"

section \<open>Example environments\<close>

text \<open>A decoder for the examples, which only give it well-formed text in the standard
  alphabet: it drops the characters outside that alphabet (the padding among them). It is
  not \<open>Buffer.from(_, "base64")\<close> on other text, which also reads the URL-safe alphabet
  and stops at the padding; every theorem below holds for any decoder.\<close>

definition base64Alphabet :: string where
  "base64Alphabet = ''ABCDEFGHIJKLMNOPQRSTUVWXYZabcdefghijklmnopqrstuvwxyz0123456789+/''"

fun sextets :: "nat list \<Rightarrow> buffer" where
  "sextets (a # b # c # d # rest) =
     (let n = ((a * 64 + b) * 64 + c) * 64 + d
      in of_nat (n div 65536) # of_nat (n div 256 mod 256) # of_nat (n mod 256) # sextets rest)"
| "sextets [a, b, c] =
     (let n = (a * 64 + b) * 64 + c in [of_nat (n div 1024), of_nat (n div 4 mod 256)])"
| "sextets [a, b] = [of_nat ((a * 64 + b) div 16)]"
| "sextets _ = []"

definition base64 :: "string \<Rightarrow> buffer" where
  "base64 s = sextets (map (\<lambda>c. length (takeWhile (\<lambda>x. x \<noteq> c) base64Alphabet))
                            (filter (\<lambda>c. c \<in> set base64Alphabet) s))"

text \<open>An environment with exact timers and instant refreshes, and the given answers to
  an image submission, a video submission and the refreshes.\<close>

definition exactEnv :: "thrown + GenerateImagesResponse \<Rightarrow> thrown + GenerateVideosOperation \<Rightarrow>
    (nat \<Rightarrow> thrown + GenerateVideosOperation) \<Rightarrow> Env" where
  "exactEnv img sub answers = \<lparr>
     generateImages = (\<lambda>p c. img),
     generateVideos = (\<lambda>p c. sub),
     getVideosOperation = answers,
     timerLateness = (\<lambda>k. 0),
     refreshLatency = (\<lambda>k. 0),
     fromBase64 = base64\<rparr>"

definition runningOp :: GenerateVideosOperation where
  "runningOp = \<lparr>name = Some ''operations/1'', isDone = False, error = None,
                 response = None, metadata = None\<rparr>"

definition finishedOp :: "GeneratedVideo list \<Rightarrow> GenerateVideosOperation" where
  "finishedOp vids = \<lparr>name = Some ''operations/1'', isDone = True, error = None,
                        response = Some \<lparr>generatedVideos = Some vids\<rparr>, metadata = None\<rparr>"

definition inlineVideo :: "string \<Rightarrow> GeneratedVideo" where
  "inlineVideo b = \<lparr>video = Some \<lparr>uri = None, videoBytes = Some b\<rparr>\<rparr>"

definition remoteVideo :: "string \<Rightarrow> GeneratedVideo" where
  "remoteVideo u = \<lparr>video = Some \<lparr>uri = Some u, videoBytes = None\<rparr>\<rparr>"

definition inlineImage :: "string \<Rightarrow> GeneratedImage" where
  "inlineImage b = \<lparr>image = Some \<lparr>gcsUri = None, imageBytes = Some b\<rparr>\<rparr>"

definition remoteImage :: "string \<Rightarrow> GeneratedImage" where
  "remoteImage u = \<lparr>image = Some \<lparr>gcsUri = Some u, imageBytes = None\<rparr>\<rparr>"

definition noImageOptions :: ImageGenerationOptions where
  "noImageOptions = \<lparr>aspectRatio = None, numberOfImages = None, guidanceScale = None,
                      outputMimeType = None, outputCompressionQuality = None\<rparr>"

definition noVideoOptions :: VideoGenerationOptions where
  "noVideoOptions = \<lparr>numberOfVideos = None, durationSeconds = None, videoAspectRatio = None,
                      resolution = None, fps = None\<rparr>"

text \<open>The prompt \<open>a cat\<close>.\<close>

definition aCat :: jsstring where
  "aCat = [0x61, 0x20, 0x63, 0x61, 0x74]"

text \<open>Scenario D of the specification: the operation is done when it is submitted, and
  its result set holds a remote-locator item and an inline item; and the same two items in
  the other order.\<close>

definition scenarioD :: Env where
  "scenarioD = exactEnv (Inl NonError)
     (Inr (finishedOp [remoteVideo ''gs://bucket/clip.mp4'', inlineVideo ''QUJD'']))
     (\<lambda>k. Inl NonError)"

definition scenarioD' :: Env where
  "scenarioD' = exactEnv (Inl NonError)
     (Inr (finishedOp [inlineVideo ''QUJD'', remoteVideo ''gs://bucket/clip.mp4'']))
     (\<lambda>k. Inl NonError)"

text \<open>A provider whose operation never finishes.\<close>

definition stalled :: Env where
  "stalled = exactEnv (Inl NonError) (Inr runningOp) (\<lambda>k. Inr runningOp)"

text \<open>A provider whose operation is done at the third refresh, with one inline item; one
  whose operation is done at the first refresh, with one remote-locator item; and one whose
  operation is done at once (scenario A).\<close>

definition doneAtThird :: Env where
  "doneAtThird = exactEnv (Inl NonError) (Inr runningOp)
     (\<lambda>k. if k < 2 then Inr runningOp else Inr (finishedOp [inlineVideo ''QUJD'']))"

definition remoteAtFirst :: Env where
  "remoteAtFirst = exactEnv (Inl NonError) (Inr runningOp)
     (\<lambda>k. Inr (finishedOp [remoteVideo ''gs://bucket/clip.mp4'']))"

definition scenarioA :: Env where
  "scenarioA = exactEnv (Inl NonError) (Inr (finishedOp [inlineVideo ''QUJD'']))
     (\<lambda>k. Inl NonError)"

text \<open>Scenario B: three refreshes answer \<open>done = false\<close>, the next one \<open>done = true\<close> with
  the error populated (and no result set). And a provider that reports \<open>done\<close> at once with
  neither an error nor a result set.\<close>

definition scenarioB :: Env where
  "scenarioB = exactEnv (Inl NonError) (Inr runningOp)
     (\<lambda>k. if k < 3 then Inr runningOp
          else Inr (runningOp\<lparr>isDone := True, error := Some ''{code:13}''\<rparr>))"

definition emptyResult :: Env where
  "emptyResult = exactEnv (Inl NonError) (Inr (runningOp\<lparr>isDone := True\<rparr>)) (\<lambda>k. Inl NonError)"

text \<open>Providers whose answers lose the handle: in the answer to the second refresh, and
  in the answer to the forty-first.\<close>

definition lostEarly :: Env where
  "lostEarly = exactEnv (Inl NonError) (Inr runningOp)
     (\<lambda>k. if k < 1 then Inr runningOp else Inr (runningOp\<lparr>name := None\<rparr>))"

definition lostLate :: Env where
  "lostLate = exactEnv (Inl NonError) (Inr runningOp)
     (\<lambda>k. if k < 40 then Inr runningOp else Inr (runningOp\<lparr>name := None\<rparr>))"

text \<open>The same providers when every refresh takes 200 milliseconds; the handle is
  then lost in the answer to the fortieth refresh.\<close>

definition stalledSlow :: Env where
  "stalledSlow = stalled\<lparr>refreshLatency := (\<lambda>k. 200)\<rparr>"

definition lostLateSlow :: Env where
  "lostLateSlow = (exactEnv (Inl NonError) (Inr runningOp)
     (\<lambda>k. if k < 39 then Inr runningOp else Inr (runningOp\<lparr>name := None\<rparr>)))
       \<lparr>refreshLatency := (\<lambda>k. 200)\<rparr>"

text \<open>Image answers: an inline item, an item without data and a remote-locator item; and
  an inline item, an item without data and a second inline item.\<close>

definition mixedImages :: Env where
  "mixedImages = exactEnv
     (Inr \<lparr>generatedImages = Some [inlineImage ''QUJD'', \<lparr>image = None\<rparr>, remoteImage ''gs://bucket/i.png'']\<rparr>)
     (Inl NonError) (\<lambda>k. Inl NonError)"

definition inlineImages :: Env where
  "inlineImages = exactEnv
     (Inr \<lparr>generatedImages = Some [inlineImage ''QUJD'', \<lparr>image = None\<rparr>, inlineImage ''QUI='']\<rparr>)
     (Inl NonError) (\<lambda>k. Inl NonError)"

section \<open>Facts about the loops\<close>

lemma poll_done: "isDone operation \<Longrightarrow> poll env s operation w = (Inr operation, w)"
  by (simp add: poll.simps)

lemma poll_timeout:
  "\<not> isDone operation \<Longrightarrow> now w - s > maxWaitTime \<Longrightarrow>
   poll env s operation w = (Inl (Error ''Video generation timed out after 10 minutes''), w)"
  by (simp add: poll.simps)

lemma poll_lost:
  "\<not> isDone operation \<Longrightarrow> now w - s \<le> maxWaitTime \<Longrightarrow> \<not> truthy (name operation) \<Longrightarrow>
   poll env s operation w =
     (Inl (Error ''Operation name is not available for polling''), afterSleep env w)"
  by (simp add: poll.simps)

lemma refreshLog_afterSleep: "refreshLog (afterSleep env w) = refreshLog w"
  by (simp add: afterSleep_def)

lemma poll_round:
  "\<not> isDone operation \<Longrightarrow> now w - s \<le> maxWaitTime \<Longrightarrow> truthy (name operation) \<Longrightarrow>
   getVideosOperation env (length (refreshLog w)) = Inr operation' \<Longrightarrow>
   poll env s operation w = poll env s operation' (afterRefresh env (afterSleep env w))"
  by (subst poll.simps) (simp add: refreshLog_afterSleep)

lemma poll_Inr_done: "poll env s operation w = (Inr operation', w') \<Longrightarrow> isDone operation'"
proof (induction env s operation w rule: poll.induct)
  case (1 env s operation w)
  show ?case
  proof (cases "isDone operation")
    case True
    with "1.prems" show ?thesis by (simp add: poll.simps)
  next
    case False
    with "1.prems" "1.IH" show ?thesis
      by (subst (asm) poll.simps) (auto simp: Let_def split: if_splits sum.splits)
  qed
qed

lemma worldAt_0: "worldAt env t 0 = afterSubmit (freshWorld t)"
  by (simp add: worldAt_def afterSubmit_def freshWorld_def)

lemma worldAt_Suc: "afterRefresh env (afterSleep env (worldAt env t k)) = worldAt env t (Suc k)"
  by (simp add: worldAt_def afterSleep_def afterRefresh_def sentAt_def)

lemma pending_Inr: "pending r \<Longrightarrow> \<exists>operation. r = Inr operation \<and> \<not> isDone operation \<and> truthy (name operation)"
  by (cases r) (simp_all add: pending_def)

lemma poll_rounds:
  "\<forall>k<n. pending (snapshot env op0 k) \<Longrightarrow> \<forall>k<n. headTime env t k - t \<le> maxWaitTime \<Longrightarrow>
   snapshot env op0 n = Inr opn \<Longrightarrow>
   poll env t op0 (worldAt env t 0) = poll env t opn (worldAt env t n)"
proof (induction n arbitrary: opn)
  case 0
  then show ?case by (simp add: snapshot_def)
next
  case (Suc n)
  from Suc.prems(1) have "pending (snapshot env op0 n)" by simp
  then obtain opm where m: "snapshot env op0 n = Inr opm" "\<not> isDone opm" "truthy (name opm)"
    using pending_Inr by blast
  from Suc.prems have "poll env t op0 (worldAt env t 0) = poll env t opm (worldAt env t n)"
    using Suc.IH [OF _ _ m(1)] by simp
  also have "\<dots> = poll env t opn (afterRefresh env (afterSleep env (worldAt env t n)))"
  proof (rule poll_round [OF m(2) _ m(3)])
    show "now (worldAt env t n) - t \<le> maxWaitTime"
      using Suc.prems(2) by (simp add: worldAt_def)
    show "getVideosOperation env (length (refreshLog (worldAt env t n))) = Inr opn"
      using Suc.prems(3) by (simp add: worldAt_def snapshot_def)
  qed
  finally show ?case by (simp add: worldAt_Suc)
qed

lemma headTime_lower: "t + pollInterval * int k \<le> headTime env t k"
  by (induction k) (simp_all add: algebra_simps)

lemma headTime_mono: "headTime env t k \<le> headTime env t (Suc k)"
  by (simp add: pollInterval_def)

lemma first_late_head:
  "\<exists>n\<le>41. headTime env t n - t > maxWaitTime \<and> (\<forall>k<n. headTime env t k - t \<le> maxWaitTime)"
proof -
  let ?P = "\<lambda>k. headTime env t k - t > maxWaitTime"
  have late: "?P 41"
    using headTime_lower [of t 41 env] by (simp add: pollInterval_def maxWaitTime_def)
  define n where "n = (LEAST k. ?P k)"
  have "?P n" unfolding n_def using late by (rule LeastI)
  moreover have "n \<le> 41" unfolding n_def using late by (rule Least_le)
  moreover have "\<forall>k<n. headTime env t k - t \<le> maxWaitTime"
  proof (intro allI impI)
    fix k assume "k < n"
    then have "\<not> ?P k" unfolding n_def by (rule not_less_Least)
    then show "headTime env t k - t \<le> maxWaitTime" by simp
  qed
  ultimately show ?thesis by blast
qed


lemma trim_Nil: "trim [] = []"
  by (simp add: trim_def)

lemma now_afterSubmit: "now (afterSubmit w) = now w"
  by (simp add: afterSubmit_def)

lemma generateVideo_submitted:
  assumes "trim prompt \<noteq> []" and "length prompt \<le> 1000"
    and "validateVideoOptions options = Inr ()"
    and "generateVideos env (trim prompt) (genVidConfig options) = Inr op0"
  shows "generateVideo env prompt options w =
     (case poll env (now w) op0 (afterSubmit w) of
        (Inl e, w') \<Rightarrow> (Inl (catchVideo e), w')
      | (Inr operation, w') \<Rightarrow>
          (case collectVideos (fromBase64 env) operation of
             Inl e \<Rightarrow> (Inl (catchVideo e), w')
           | Inr videoBuffers \<Rightarrow> (Inr videoBuffers, w')))"
proof -
  from assms(1) have "prompt \<noteq> []" by (auto simp: trim_Nil)
  with assms show ?thesis
    by (simp add: generateVideo_def generateVideoTry_def now_afterSubmit Let_def
        split: prod.splits sum.splits)
qed

lemma convertVideos_Cons:
  "convertVideos dec (v # vids) acc =
     (case videoLocator v of
        Some u \<Rightarrow> Inl (Error (''GCS file download not implemented. Cannot download from '' @ u))
      | None \<Rightarrow> (case videoInline v of
                   Some b \<Rightarrow> convertVideos dec vids (acc @ [dec b])
                 | None \<Rightarrow> convertVideos dec vids acc))"
  by (cases "video v")
     (auto simp: videoLocator_def videoInline_def truthy_def strOf_def downloadGcsFile_def
       split: option.splits)

lemma convertVideos_locator:
  "List.map_filter videoLocator vids = u # us \<Longrightarrow>
   convertVideos dec vids acc =
     Inl (Error (''GCS file download not implemented. Cannot download from '' @ u))"
proof (induction vids arbitrary: acc)
  case Nil
  then show ?case by simp
next
  case (Cons v vids)
  then show ?case
    by (cases "videoLocator v") (simp_all add: convertVideos_Cons del: convertVideos.simps split: option.splits)
qed

lemma convertVideos_inline:
  "List.map_filter videoLocator vids = [] \<Longrightarrow>
   convertVideos dec vids acc = Inr (acc @ map dec (List.map_filter videoInline vids))"
proof (induction vids arbitrary: acc)
  case Nil
  then show ?case by simp
next
  case (Cons v vids)
  then show ?case
    by (cases "videoLocator v") (simp_all add: convertVideos_Cons del: convertVideos.simps split: option.splits)
qed

lemma convertImages_Cons:
  "convertImages dec (g # imgs) acc =
     (case imageLocator g of
        Some u \<Rightarrow> Inl (Error ''GCS URI handling not implemented. Please avoid using outputGcsUri.'')
      | None \<Rightarrow> (case imageInline g of
                   Some b \<Rightarrow> convertImages dec imgs (acc @ [dec b])
                 | None \<Rightarrow> convertImages dec imgs acc))"
  by (cases "image g")
     (auto simp: imageLocator_def imageInline_def truthy_def strOf_def split: option.splits)

lemma convertImages_locator:
  "List.map_filter imageLocator imgs \<noteq> [] \<Longrightarrow>
   convertImages dec imgs acc =
     Inl (Error ''GCS URI handling not implemented. Please avoid using outputGcsUri.'')"
proof (induction imgs arbitrary: acc)
  case Nil
  then show ?case by simp
next
  case (Cons g imgs)
  then show ?case
    by (cases "imageLocator g") (simp_all add: convertImages_Cons del: convertImages.simps split: option.splits)
qed

lemma convertImages_inline:
  "List.map_filter imageLocator imgs = [] \<Longrightarrow>
   convertImages dec imgs acc = Inr (acc @ map dec (List.map_filter imageInline imgs))"
proof (induction imgs arbitrary: acc)
  case Nil
  then show ?case by simp
next
  case (Cons g imgs)
  then show ?case
    by (cases "imageLocator g") (simp_all add: convertImages_Cons del: convertImages.simps split: option.splits)
qed

text \<open>Facts about the example inputs, and what a call does to the count of submissions.\<close>

lemma valid_aCat: "trim aCat \<noteq> []" "length aCat \<le> 1000"
  by (simp_all add: aCat_def trim_def isWhiteSpace_def)

lemma valid_noVideoOptions: "validateVideoOptions noVideoOptions = Inr ()"
  by (simp add: validateVideoOptions_def noVideoOptions_def orDefault_def lt_def gt_def
      validVideoAspectRatios_def validResolutions_def)

lemma valid_noImageOptions: "validateImageOptions noImageOptions = Inr ()"
  by (simp add: validateImageOptions_def noImageOptions_def orDefault_def lt_def gt_def
      validImageAspectRatios_def validMimeTypes_def)

lemma base64_QUJD: "base64 ''QUJD'' = [0x41, 0x42, 0x43]"
  by (simp add: base64_def base64Alphabet_def)

lemma base64_QUI: "base64 ''QUI='' = [0x41, 0x42]"
  by (simp add: base64_def base64Alphabet_def)

lemma headTime_exactEnv: "headTime (exactEnv a b c) t k = t + 15000 * int k"
  by (induction k) (simp_all add: exactEnv_def pollInterval_def)


lemma generateImage_submitted:
  assumes "trim prompt \<noteq> []" and "length prompt \<le> 4000"
    and "validateImageOptions options = Inr ()"
  shows "generateImage env prompt options w =
     (case generateImageTry env prompt (genImConfig options) w of
        (Inl e, w') \<Rightarrow> (Inl (catchImage e), w')
      | (Inr imageBuffers, w') \<Rightarrow> (Inr imageBuffers, w'))"
proof -
  from assms(1) have "prompt \<noteq> []" by (auto simp: trim_Nil)
  with assms show ?thesis by (simp add: generateImage_def)
qed



lemma stalled_submit: "generateVideos stalled (trim aCat) (genVidConfig noVideoOptions) = Inr runningOp"
  by (simp add: stalled_def exactEnv_def)

lemma stalled_pending: "pending (snapshot stalled runningOp k)"
  by (simp add: pending_def snapshot_def stalled_def exactEnv_def runningOp_def truthy_def
      split: nat.splits)

section \<open>The validators\<close>

text \<open>A range check fails exactly on the values that are neither in the range nor
  \<open>NaN\<close>; a membership check fails exactly on the values that are not listed.\<close>

lemma range_check: "(lt x lo \<or> gt x hi) = (\<not> passesRange lo hi (Some x))"
  by (cases x) (auto simp: lt_def gt_def passesRange_def)

lemma range_check_default:
  "lo \<le> d \<Longrightarrow> d \<le> hi \<Longrightarrow>
   (lt (orDefault v (Finite d)) lo \<or> gt (orDefault v (Finite d)) hi) = (\<not> passesRange lo hi v)"
  by (cases v) (simp_all add: orDefault_def range_check, simp add: lt_def gt_def passesRange_def)

lemma range_check_option:
  "(case v of None \<Rightarrow> False | Some g \<Rightarrow> lt g lo \<or> gt g hi) = (\<not> passesRange lo hi v)"
  by (cases v) (simp_all add: range_check, simp add: passesRange_def)

lemma oneOf_default: "d \<in> set xs \<Longrightarrow> (orDefault v d \<notin> set xs) = (\<not> oneOf xs v)"
  by (cases v) (simp_all add: orDefault_def oneOf_def)

text \<open>
  What \<open>validateVideoOptions\<close> does on every options record: it succeeds exactly when each
  numeric field is absent, in its range or \<open>NaN\<close>, the aspect ratio is 16:9 or 9:16 and the
  resolution is 720p or 1080p. The first check that fails, in the order count, duration,
  frame rate, aspect ratio, resolution, decides the error, and its message names the field
  and the valid range.
\<close>

lemma validateVideoOptions_checks:
  "(validateVideoOptions options = Inr ()) =
     (passesRange 1 4 (numberOfVideos options) \<and> passesRange 2 10 (durationSeconds options) \<and>
      passesRange 8 30 (fps options) \<and> oneOf [''16:9'', ''9:16''] (videoAspectRatio options) \<and>
      oneOf [''720p'', ''1080p''] (resolution options))
   \<and> (\<not> passesRange 1 4 (numberOfVideos options) \<longrightarrow>
        validateVideoOptions options = Inl (Error ''numberOfVideos must be between 1 and 4''))
   \<and> (passesRange 1 4 (numberOfVideos options) \<and> \<not> passesRange 2 10 (durationSeconds options) \<longrightarrow>
        validateVideoOptions options = Inl (Error ''durationSeconds must be between 2 and 10''))
   \<and> (passesRange 1 4 (numberOfVideos options) \<and> passesRange 2 10 (durationSeconds options) \<and>
        \<not> passesRange 8 30 (fps options) \<longrightarrow>
        validateVideoOptions options = Inl (Error ''fps must be between 8 and 30''))
   \<and> (passesRange 1 4 (numberOfVideos options) \<and> passesRange 2 10 (durationSeconds options) \<and>
        passesRange 8 30 (fps options) \<and> \<not> oneOf [''16:9'', ''9:16''] (videoAspectRatio options) \<longrightarrow>
        validateVideoOptions options = Inl (Error ''aspectRatio must be one of: 16:9, 9:16''))
   \<and> (passesRange 1 4 (numberOfVideos options) \<and> passesRange 2 10 (durationSeconds options) \<and>
        passesRange 8 30 (fps options) \<and> oneOf [''16:9'', ''9:16''] (videoAspectRatio options) \<and>
        \<not> oneOf [''720p'', ''1080p''] (resolution options) \<longrightarrow>
        validateVideoOptions options = Inl (Error ''resolution must be one of: 720p, 1080p''))"
proof -
  have n: "(lt (orDefault (numberOfVideos options) (Finite 1)) 1
        \<or> gt (orDefault (numberOfVideos options) (Finite 1)) 4)
      = (\<not> passesRange 1 4 (numberOfVideos options))"
    by (rule range_check_default) simp_all
  have d: "(lt (orDefault (durationSeconds options) (Finite 5)) 2
        \<or> gt (orDefault (durationSeconds options) (Finite 5)) 10)
      = (\<not> passesRange 2 10 (durationSeconds options))"
    by (rule range_check_default) simp_all
  have a: "(orDefault (videoAspectRatio options) ''16:9'' \<notin> set validVideoAspectRatios)
      = (\<not> oneOf validVideoAspectRatios (videoAspectRatio options))"
    by (rule oneOf_default) (simp add: validVideoAspectRatios_def)
  have r: "(orDefault (resolution options) ''720p'' \<notin> set validResolutions)
      = (\<not> oneOf validResolutions (resolution options))"
    by (rule oneOf_default) (simp add: validResolutions_def)
  show ?thesis
    by (simp only: validateVideoOptions_def Let_def n d a r range_check_option)
       (simp add: validVideoAspectRatios_def validResolutions_def)
qed

text \<open>
  Claim C3 says that \<open>validateVideoOptions\<close> succeeds only if the count lies in [1,4], the
  duration in [2,10] and the frame rate, when present, in [8,30]. The code breaks this at
  \<open>NaN\<close>: both comparisons of a range check are false there, so a record whose count,
  duration or frame rate is \<open>NaN\<close> passes validation although \<open>NaN\<close> lies in no range.
\<close>

theorem validateVideoOptions_accepts_NaN:
  "validateVideoOptions (noVideoOptions\<lparr>numberOfVideos := Some NaN\<rparr>) = Inr ()
   \<and> \<not> inRange 1 4 (numberOfVideos (noVideoOptions\<lparr>numberOfVideos := Some NaN\<rparr>))
   \<and> validateVideoOptions (noVideoOptions\<lparr>durationSeconds := Some NaN\<rparr>) = Inr ()
   \<and> \<not> inRange 2 10 (durationSeconds (noVideoOptions\<lparr>durationSeconds := Some NaN\<rparr>))
   \<and> validateVideoOptions (noVideoOptions\<lparr>fps := Some NaN\<rparr>) = Inr ()
   \<and> \<not> inRange 8 30 (fps (noVideoOptions\<lparr>fps := Some NaN\<rparr>))"
  by (simp add: validateVideoOptions_def noVideoOptions_def orDefault_def lt_def gt_def
      inRange_def validVideoAspectRatios_def validResolutions_def)

text \<open>
  What \<open>validateImageOptions\<close> does on every options record: it succeeds exactly when each
  numeric field is absent, in its range or \<open>NaN\<close>, the aspect ratio is one of 1:1, 3:4,
  4:3, 9:16, 16:9 and the output encoding is JPEG or PNG. It stops at the first check that
  fails, in the order count, guidance scale, compression quality, aspect ratio, encoding,
  and its message names the field and the valid range.
\<close>

lemma validateImageOptions_checks:
  "(validateImageOptions options = Inr ()) =
     (passesRange 1 8 (numberOfImages options) \<and> passesRange 1 20 (guidanceScale options) \<and>
      passesRange 1 100 (outputCompressionQuality options) \<and>
      oneOf [''1:1'', ''3:4'', ''4:3'', ''9:16'', ''16:9''] (aspectRatio options) \<and>
      oneOf [''image/jpeg'', ''image/png''] (outputMimeType options))
   \<and> (\<not> passesRange 1 8 (numberOfImages options) \<longrightarrow>
        validateImageOptions options = Inl (Error ''numberOfImages must be between 1 and 8''))
   \<and> (passesRange 1 8 (numberOfImages options) \<and> \<not> passesRange 1 20 (guidanceScale options) \<longrightarrow>
        validateImageOptions options = Inl (Error ''guidanceScale must be between 1 and 20''))
   \<and> (passesRange 1 8 (numberOfImages options) \<and> passesRange 1 20 (guidanceScale options) \<and>
        \<not> passesRange 1 100 (outputCompressionQuality options) \<longrightarrow>
        validateImageOptions options
          = Inl (Error ''outputCompressionQuality must be between 1 and 100''))
   \<and> (passesRange 1 8 (numberOfImages options) \<and> passesRange 1 20 (guidanceScale options) \<and>
        passesRange 1 100 (outputCompressionQuality options) \<and>
        \<not> oneOf [''1:1'', ''3:4'', ''4:3'', ''9:16'', ''16:9''] (aspectRatio options) \<longrightarrow>
        validateImageOptions options
          = Inl (Error ''aspectRatio must be one of: 1:1, 3:4, 4:3, 9:16, 16:9''))
   \<and> (passesRange 1 8 (numberOfImages options) \<and> passesRange 1 20 (guidanceScale options) \<and>
        passesRange 1 100 (outputCompressionQuality options) \<and>
        oneOf [''1:1'', ''3:4'', ''4:3'', ''9:16'', ''16:9''] (aspectRatio options) \<and>
        \<not> oneOf [''image/jpeg'', ''image/png''] (outputMimeType options) \<longrightarrow>
        validateImageOptions options
          = Inl (Error ''outputMimeType must be one of: image/jpeg, image/png''))"
proof -
  have n: "(lt (orDefault (numberOfImages options) (Finite 1)) 1
        \<or> gt (orDefault (numberOfImages options) (Finite 1)) 8)
      = (\<not> passesRange 1 8 (numberOfImages options))"
    by (rule range_check_default) simp_all
  have q: "(lt (orDefault (outputCompressionQuality options) (Finite 85)) 1
        \<or> gt (orDefault (outputCompressionQuality options) (Finite 85)) 100)
      = (\<not> passesRange 1 100 (outputCompressionQuality options))"
    by (rule range_check_default) simp_all
  have a: "(orDefault (aspectRatio options) ''1:1'' \<notin> set validImageAspectRatios)
      = (\<not> oneOf validImageAspectRatios (aspectRatio options))"
    by (rule oneOf_default) (simp add: validImageAspectRatios_def)
  have m: "(orDefault (outputMimeType options) ''image/jpeg'' \<notin> set validMimeTypes)
      = (\<not> oneOf validMimeTypes (outputMimeType options))"
    by (rule oneOf_default) (simp add: validMimeTypes_def)
  show ?thesis
    by (simp only: validateImageOptions_def Let_def n q a m range_check_option)
       (simp add: validImageAspectRatios_def validMimeTypes_def)
qed

text \<open>
  Claim C4 says that \<open>validateImageOptions\<close> succeeds only if the count lies in [1,8], the
  guidance scale, when present, in [1,20] and the compression quality in [1,100]. The code
  breaks this at \<open>NaN\<close>: both comparisons of a range check are false there, so a record
  whose count, guidance scale or compression quality is \<open>NaN\<close> passes validation although
  \<open>NaN\<close> lies in no range.
\<close>

theorem validateImageOptions_accepts_NaN:
  "validateImageOptions (noImageOptions\<lparr>numberOfImages := Some NaN\<rparr>) = Inr ()
   \<and> \<not> inRange 1 8 (numberOfImages (noImageOptions\<lparr>numberOfImages := Some NaN\<rparr>))
   \<and> validateImageOptions (noImageOptions\<lparr>guidanceScale := Some NaN\<rparr>) = Inr ()
   \<and> \<not> inRange 1 20 (guidanceScale (noImageOptions\<lparr>guidanceScale := Some NaN\<rparr>))
   \<and> validateImageOptions (noImageOptions\<lparr>outputCompressionQuality := Some NaN\<rparr>) = Inr ()
   \<and> \<not> inRange 1 100
        (outputCompressionQuality (noImageOptions\<lparr>outputCompressionQuality := Some NaN\<rparr>))"
  by (simp add: validateImageOptions_def noImageOptions_def orDefault_def lt_def gt_def
      inRange_def validImageAspectRatios_def validMimeTypes_def)

section \<open>Validation comes before submission\<close>



section \<open>The polling loop\<close>

text \<open>
  Claim C6, as amended. Let the submitted operation and the answers to the first \<open>N - 1\<close>
  refreshes be not done (each carrying the handle that the next refresh needs), let the
  answer to the \<open>N\<close>-th refresh be done, and let the clock check at the head of each of
  these \<open>N\<close> rounds find the ceiling not exceeded. Then the loop ends with that answer after
  exactly \<open>N\<close> refreshes and \<open>N\<close> sleeps. \<open>generateVideo\<close> then succeeds, with the decoded
  bytes of the inline items, when the answer has no error and its result set holds no item
  with a remote locator and at least one inline item. For \<open>N = 0\<close>: an operation that is
  done when submitted is neither refreshed nor slept on.
\<close>

theorem generateVideo_refreshes:
  assumes "trim prompt \<noteq> []" and "length prompt \<le> 1000"
    and "validateVideoOptions options = Inr ()"
    and "generateVideos env (trim prompt) (genVidConfig options) = Inr op0"
    and "\<forall>k<N. pending (snapshot env op0 k)"
    and "\<forall>k<N. headTime env t k - t \<le> maxWaitTime"
    and "snapshot env op0 N = Inr opN" and "isDone opN"
  shows "\<exists>w'. poll env t op0 (afterSubmit (freshWorld t)) = (Inr opN, w')
           \<and> length (refreshLog w') = N \<and> sleeps w' = N
           \<and> (error opN = None \<and> resultSet opN = Some vids
                \<and> List.map_filter videoLocator vids = []
                \<and> List.map_filter videoInline vids \<noteq> [] \<longrightarrow>
              generateVideo env prompt options (freshWorld t)
                = (Inr (map (fromBase64 env) (List.map_filter videoInline vids)), w'))"
proof -
  have "poll env t op0 (afterSubmit (freshWorld t)) = poll env t opN (worldAt env t N)"
    using poll_rounds [OF assms(5) assms(6) assms(7)] by (simp add: worldAt_0)
  also have "\<dots> = (Inr opN, worldAt env t N)"
    using assms(8) by (rule poll_done)
  finally have loop: "poll env t op0 (afterSubmit (freshWorld t)) = (Inr opN, worldAt env t N)" .
  then have loop': "poll env (now (freshWorld t)) op0 (afterSubmit (freshWorld t))
      = (Inr opN, worldAt env t N)"
    by (simp add: freshWorld_def)
  have "generateVideo env prompt options (freshWorld t)
      = (Inr (map (fromBase64 env) (List.map_filter videoInline vids)), worldAt env t N)"
    if r: "error opN = None" "resultSet opN = Some vids"
      "List.map_filter videoLocator vids = []" "List.map_filter videoInline vids \<noteq> []"
  proof -
    from r(4) have "vids \<noteq> []" by auto
    with r have "collectVideos (fromBase64 env) opN
        = Inr (map (fromBase64 env) (List.map_filter videoInline vids))"
      by (simp add: collectVideos_def convertVideos_inline)
    with loop' show ?thesis
      by (simp add: generateVideo_submitted [OF assms(1-4)])
  qed
  with loop show ?thesis by (simp add: worldAt_def)
qed

theorem generateVideo_refreshes_witness:
  "generateVideo doneAtThird aCat noVideoOptions (freshWorld 0)
     = (Inr [[0x41, 0x42, 0x43]],
        \<lparr>now = 45000, submits = 1, sleeps = 3, refreshLog = [15000, 30000, 45000]\<rparr>)
   \<and> generateVideo scenarioA aCat noVideoOptions (freshWorld 0)
     = (Inr [[0x41, 0x42, 0x43]], \<lparr>now = 0, submits = 1, sleeps = 0, refreshLog = []\<rparr>)"
proof -
  let ?fin = "finishedOp [inlineVideo ''QUJD'']"
  have a: "generateVideos doneAtThird (trim aCat) (genVidConfig noVideoOptions) = Inr runningOp"
    by (simp add: doneAtThird_def exactEnv_def)
  have b: "\<forall>k<3. pending (snapshot doneAtThird runningOp k)"
    by (auto simp: pending_def snapshot_def doneAtThird_def exactEnv_def runningOp_def truthy_def
        split: nat.splits)
  have c: "\<forall>k<3. headTime doneAtThird 0 k - 0 \<le> maxWaitTime"
    by (auto simp: doneAtThird_def headTime_exactEnv maxWaitTime_def)
  have d: "snapshot doneAtThird runningOp 3 = Inr ?fin"
    by (simp add: snapshot_def doneAtThird_def exactEnv_def eval_nat_numeral)
  have e: "isDone ?fin"
    by (simp add: finishedOp_def)
  have f: "error ?fin = None \<and> resultSet ?fin = Some [inlineVideo ''QUJD'']
      \<and> List.map_filter videoLocator [inlineVideo ''QUJD''] = []
      \<and> List.map_filter videoInline [inlineVideo ''QUJD''] \<noteq> []"
    by (simp add: finishedOp_def resultSet_def videoLocator_def videoInline_def inlineVideo_def
        truthy_def)
  have g: "map (fromBase64 doneAtThird) (List.map_filter videoInline [inlineVideo ''QUJD''])
      = [[0x41, 0x42, 0x43]]"
    by (simp add: doneAtThird_def exactEnv_def videoInline_def inlineVideo_def truthy_def
        base64_QUJD)
  have h: "poll doneAtThird 0 runningOp (afterSubmit (freshWorld 0))
      = (Inr ?fin, \<lparr>now = 45000, submits = 1, sleeps = 3, refreshLog = [15000, 30000, 45000]\<rparr>)"
    by code_simp
  have a': "generateVideos scenarioA (trim aCat) (genVidConfig noVideoOptions) = Inr ?fin"
    by (simp add: scenarioA_def exactEnv_def)
  have d': "snapshot scenarioA ?fin 0 = Inr ?fin"
    by (simp add: snapshot_def)
  have g': "map (fromBase64 scenarioA) (List.map_filter videoInline [inlineVideo ''QUJD''])
      = [[0x41, 0x42, 0x43]]"
    by (simp add: scenarioA_def exactEnv_def videoInline_def inlineVideo_def truthy_def
        base64_QUJD)
  have h': "poll scenarioA 0 ?fin (afterSubmit (freshWorld 0))
      = (Inr ?fin, \<lparr>now = 0, submits = 1, sleeps = 0, refreshLog = []\<rparr>)"
    by code_simp
  show ?thesis
    using generateVideo_refreshes [OF valid_aCat valid_noVideoOptions a b c d e,
        of "[inlineVideo ''QUJD'']"]
      generateVideo_refreshes [OF valid_aCat valid_noVideoOptions a' _ _ d' e,
        of 0 "[inlineVideo ''QUJD'']"]
      f g g' h h'
    by simp
qed

text \<open>
  Claim C6 as stated fails: a result set can be populated by an item with a remote locator.
  When the first refresh answers \<open>done\<close> with such a result set, the loop ends after that
  one refresh, and the generation fails.
\<close>

theorem populated_locator_fails:
  "snapshot remoteAtFirst runningOp 1 = Inr (finishedOp [remoteVideo ''gs://bucket/clip.mp4''])
   \<and> resultSet (finishedOp [remoteVideo ''gs://bucket/clip.mp4''])
     = Some [remoteVideo ''gs://bucket/clip.mp4'']
   \<and> generateVideo remoteAtFirst aCat noVideoOptions (freshWorld 0)
     = (Inl (Error ''Video generation failed: GCS file download not implemented. Cannot download from gs://bucket/clip.mp4''),
        \<lparr>now = 15000, submits = 1, sleeps = 1, refreshLog = [15000]\<rparr>)"
proof -
  have "snapshot remoteAtFirst runningOp 1
      = Inr (finishedOp [remoteVideo ''gs://bucket/clip.mp4''])"
    by (simp add: snapshot_def remoteAtFirst_def exactEnv_def)
  moreover have "resultSet (finishedOp [remoteVideo ''gs://bucket/clip.mp4''])
      = Some [remoteVideo ''gs://bucket/clip.mp4'']"
    by (simp add: resultSet_def finishedOp_def)
  moreover have "generateVideo remoteAtFirst aCat noVideoOptions (freshWorld 0)
     = (Inl (Error ''Video generation failed: GCS file download not implemented. Cannot download from gs://bucket/clip.mp4''),
        \<lparr>now = 15000, submits = 1, sleeps = 1, refreshLog = [15000]\<rparr>)"
    by code_simp
  ultimately show ?thesis by blast
qed

text \<open>
  Claim C2, as amended. When neither the submitted operation nor any answer to a refresh is
  done, and each carries its handle, \<open>generateVideo\<close> fails with the timeout error at the
  first round \<open>n\<close> whose clock check finds more than \<open>maxWaitTime\<close> elapsed since the loop
  was entered. Until then it has sent \<open>n\<close> refreshes, one in each round whose check passed,
  and it sends none after the failing check; \<open>n\<close> is at most 41. The check comes before the
  sleep of a round, so the refresh of the last passing round may itself be sent after the
  ceiling.
\<close>

theorem generateVideo_timeout:
  assumes "trim prompt \<noteq> []" and "length prompt \<le> 1000"
    and "validateVideoOptions options = Inr ()"
    and "generateVideos env (trim prompt) (genVidConfig options) = Inr op0"
    and "\<forall>k. pending (snapshot env op0 k)"
  shows "\<exists>n\<le>41. generateVideo env prompt options (freshWorld t)
             = (Inl (Error ''Video generation failed: Video generation timed out after 10 minutes''),
                worldAt env t n)
           \<and> maxWaitTime < headTime env t n - t
           \<and> (\<forall>k<n. headTime env t k - t \<le> maxWaitTime)"
proof -
  obtain n where n: "n \<le> 41" "maxWaitTime < headTime env t n - t"
      "\<forall>k<n. headTime env t k - t \<le> maxWaitTime"
    using first_late_head by blast
  from assms(5) have "pending (snapshot env op0 n)" by simp
  then obtain opn where opn: "snapshot env op0 n = Inr opn" "\<not> isDone opn"
    using pending_Inr by blast
  from assms(5) have "\<forall>k<n. pending (snapshot env op0 k)" by simp
  then have "poll env t op0 (afterSubmit (freshWorld t)) = poll env t opn (worldAt env t n)"
    using poll_rounds [OF _ n(3) opn(1)] by (simp add: worldAt_0)
  also have "\<dots> = (Inl (Error ''Video generation timed out after 10 minutes''), worldAt env t n)"
    using opn(2) n(2) by (intro poll_timeout) (simp_all add: worldAt_def)
  finally have "poll env (now (freshWorld t)) op0 (afterSubmit (freshWorld t))
      = (Inl (Error ''Video generation timed out after 10 minutes''), worldAt env t n)"
    by (simp add: freshWorld_def)
  then have "generateVideo env prompt options (freshWorld t)
      = (Inl (Error ''Video generation failed: Video generation timed out after 10 minutes''),
         worldAt env t n)"
    by (simp add: generateVideo_submitted [OF assms(1-4)] catchVideo_def)
  with n show ?thesis by blast
qed

theorem generateVideo_timeout_witness:
  "\<exists>n\<le>41. generateVideo stalled aCat noVideoOptions (freshWorld 0)
             = (Inl (Error ''Video generation failed: Video generation timed out after 10 minutes''),
                worldAt stalled 0 n)
           \<and> maxWaitTime < headTime stalled 0 n - 0"
  using generateVideo_timeout [OF valid_aCat valid_noVideoOptions stalled_submit, of 0]
    stalled_pending by blast

text \<open>
  Claim C2 as stated fails: with exact timers and instant answers the rounds begin at 0,
  15, ..., 600 seconds, the check at 600 seconds passes (600 is not more than 600), and the
  forty-first refresh is sent at 615 seconds, after the ceiling has been crossed. When
  every refresh takes 200 milliseconds, the check at 592.8 seconds passes and the fortieth
  refresh is sent at 607.8 seconds.
\<close>

theorem refresh_after_ceiling:
  "fst (generateVideo stalled aCat noVideoOptions (freshWorld 0))
     = Inl (Error ''Video generation failed: Video generation timed out after 10 minutes'')
   \<and> last (refreshLog (snd (generateVideo stalled aCat noVideoOptions (freshWorld 0)))) = 615000
   \<and> maxWaitTime < 615000 - now (freshWorld 0)
   \<and> fst (generateVideo stalledSlow aCat noVideoOptions (freshWorld 0))
     = Inl (Error ''Video generation failed: Video generation timed out after 10 minutes'')
   \<and> last (refreshLog (snd (generateVideo stalledSlow aCat noVideoOptions (freshWorld 0)))) = 607800
   \<and> maxWaitTime < 607800 - now (freshWorld 0)"
proof -
  have "fst (generateVideo stalled aCat noVideoOptions (freshWorld 0))
     = Inl (Error ''Video generation failed: Video generation timed out after 10 minutes'')"
    by code_simp
  moreover have "last (refreshLog (snd (generateVideo stalled aCat noVideoOptions (freshWorld 0))))
     = 615000"
    by code_simp
  moreover have "fst (generateVideo stalledSlow aCat noVideoOptions (freshWorld 0))
     = Inl (Error ''Video generation failed: Video generation timed out after 10 minutes'')"
    by code_simp
  moreover have "last (refreshLog (snd (generateVideo stalledSlow aCat noVideoOptions (freshWorld 0))))
     = 607800"
    by code_simp
  moreover have "maxWaitTime < 615000 - now (freshWorld 0)" "maxWaitTime < 607800 - now (freshWorld 0)"
    by (simp_all add: maxWaitTime_def freshWorld_def)
  ultimately show ?thesis by blast
qed

text \<open>
  Claim C8, as amended. When, after \<open>n\<close> refreshes, the operation is not done and carries
  no handle, no further refresh is sent. If the clock check at the head of the next round
  finds the ceiling not exceeded, the loop sleeps once more and then fails with the
  lost-handle error; if it finds the ceiling exceeded, the loop fails with the timeout error
  instead.
\<close>

theorem generateVideo_lost_handle:
  assumes "trim prompt \<noteq> []" and "length prompt \<le> 1000"
    and "validateVideoOptions options = Inr ()"
    and "generateVideos env (trim prompt) (genVidConfig options) = Inr op0"
    and "\<forall>k<n. pending (snapshot env op0 k)"
    and "\<forall>k<n. headTime env t k - t \<le> maxWaitTime"
    and "snapshot env op0 n = Inr opn" and "\<not> isDone opn" and "\<not> truthy (name opn)"
  shows "generateVideo env prompt options (freshWorld t)
           = (if headTime env t n - t \<le> maxWaitTime
              then (Inl (Error ''Video generation failed: Operation name is not available for polling''),
                    afterSleep env (worldAt env t n))
              else (Inl (Error ''Video generation failed: Video generation timed out after 10 minutes''),
                    worldAt env t n))
         \<and> length (refreshLog (snd (generateVideo env prompt options (freshWorld t)))) = n"
proof -
  have "poll env t op0 (afterSubmit (freshWorld t)) = poll env t opn (worldAt env t n)"
    using poll_rounds [OF assms(5) assms(6) assms(7)] by (simp add: worldAt_0)
  also have "\<dots> = (if headTime env t n - t \<le> maxWaitTime
              then (Inl (Error ''Operation name is not available for polling''),
                    afterSleep env (worldAt env t n))
              else (Inl (Error ''Video generation timed out after 10 minutes''), worldAt env t n))"
  proof (cases "headTime env t n - t \<le> maxWaitTime")
    case True
    then have "now (worldAt env t n) - t \<le> maxWaitTime" by (simp add: worldAt_def)
    with True show ?thesis using poll_lost [OF assms(8) _ assms(9)] by simp
  next
    case False
    then have "maxWaitTime < now (worldAt env t n) - t" by (simp add: worldAt_def)
    with False show ?thesis using poll_timeout [OF assms(8)] by simp
  qed
  finally have "poll env (now (freshWorld t)) op0 (afterSubmit (freshWorld t))
      = (if headTime env t n - t \<le> maxWaitTime
              then (Inl (Error ''Operation name is not available for polling''),
                    afterSleep env (worldAt env t n))
              else (Inl (Error ''Video generation timed out after 10 minutes''), worldAt env t n))"
    by (simp add: freshWorld_def)
  then have "generateVideo env prompt options (freshWorld t)
           = (if headTime env t n - t \<le> maxWaitTime
              then (Inl (Error ''Video generation failed: Operation name is not available for polling''),
                    afterSleep env (worldAt env t n))
              else (Inl (Error ''Video generation failed: Video generation timed out after 10 minutes''),
                    worldAt env t n))"
    by (simp add: generateVideo_submitted [OF assms(1-4)] catchVideo_def)
  then show ?thesis by (simp add: refreshLog_afterSleep worldAt_def)
qed

theorem generateVideo_lost_handle_witness:
  "generateVideo lostEarly aCat noVideoOptions (freshWorld 0)
     = (Inl (Error ''Video generation failed: Operation name is not available for polling''),
        \<lparr>now = 45000, submits = 1, sleeps = 3, refreshLog = [15000, 30000]\<rparr>)"
proof -
  have a: "generateVideos lostEarly (trim aCat) (genVidConfig noVideoOptions) = Inr runningOp"
    by (simp add: lostEarly_def exactEnv_def)
  have b: "\<forall>k<2. pending (snapshot lostEarly runningOp k)"
    by (auto simp: pending_def snapshot_def lostEarly_def exactEnv_def runningOp_def truthy_def
        split: nat.splits)
  have c: "\<forall>k<2. headTime lostEarly 0 k - 0 \<le> maxWaitTime"
    by (auto simp: lostEarly_def headTime_exactEnv maxWaitTime_def)
  have d: "snapshot lostEarly runningOp 2 = Inr (runningOp\<lparr>name := None\<rparr>)"
    by (simp add: snapshot_def lostEarly_def exactEnv_def eval_nat_numeral)
  have e: "\<not> isDone (runningOp\<lparr>name := None\<rparr>)" "\<not> truthy (name (runningOp\<lparr>name := None\<rparr>))"
    by (simp_all add: runningOp_def truthy_def)
  have f: "headTime lostEarly 0 2 - 0 \<le> maxWaitTime"
    by (simp add: lostEarly_def headTime_exactEnv maxWaitTime_def)
  have g: "afterSleep lostEarly (worldAt lostEarly 0 2)
      = \<lparr>now = 45000, submits = 1, sleeps = 3, refreshLog = [15000, 30000]\<rparr>"
    by (simp add: afterSleep_def worldAt_def sentAt_def lostEarly_def headTime_exactEnv
        pollInterval_def eval_nat_numeral)
       (simp add: exactEnv_def)
  show ?thesis
    using generateVideo_lost_handle [OF valid_aCat valid_noVideoOptions a b c d e] f g by simp
qed

text \<open>
  Claim C8 as stated fails: when the answer that lost the handle arrives after the ceiling
  (here the answer to the forty-first refresh, sent at 615 seconds; or, when every refresh
  takes 200 milliseconds, the answer to the fortieth, which arrives at 608 seconds), the
  error is the timeout, not the lost handle.
\<close>

theorem lost_handle_after_ceiling:
  "snapshot lostLate runningOp 41 = Inr (runningOp\<lparr>name := None\<rparr>)
   \<and> fst (generateVideo lostLate aCat noVideoOptions (freshWorld 0))
     = Inl (Error ''Video generation failed: Video generation timed out after 10 minutes'')
   \<and> length (refreshLog (snd (generateVideo lostLate aCat noVideoOptions (freshWorld 0)))) = 41
   \<and> snapshot lostLateSlow runningOp 40 = Inr (runningOp\<lparr>name := None\<rparr>)
   \<and> fst (generateVideo lostLateSlow aCat noVideoOptions (freshWorld 0))
     = Inl (Error ''Video generation failed: Video generation timed out after 10 minutes'')
   \<and> length (refreshLog (snd (generateVideo lostLateSlow aCat noVideoOptions (freshWorld 0)))) = 40"
proof -
  have "snapshot lostLate runningOp 41 = Inr (runningOp\<lparr>name := None\<rparr>)"
    by (simp add: snapshot_def lostLate_def exactEnv_def eval_nat_numeral)
  moreover have "fst (generateVideo lostLate aCat noVideoOptions (freshWorld 0))
     = Inl (Error ''Video generation failed: Video generation timed out after 10 minutes'')"
    by code_simp
  moreover have "length (refreshLog (snd (generateVideo lostLate aCat noVideoOptions (freshWorld 0))))
     = 41"
    by code_simp
  moreover have "snapshot lostLateSlow runningOp 40 = Inr (runningOp\<lparr>name := None\<rparr>)"
    by (simp add: snapshot_def lostLateSlow_def exactEnv_def eval_nat_numeral)
  moreover have "fst (generateVideo lostLateSlow aCat noVideoOptions (freshWorld 0))
     = Inl (Error ''Video generation failed: Video generation timed out after 10 minutes'')"
    by code_simp
  moreover have "length (refreshLog (snd (generateVideo lostLateSlow aCat noVideoOptions (freshWorld 0))))
     = 40"
    by code_simp
  ultimately show ?thesis by blast
qed

text \<open>
  Claim C7. When the loop ends with an operation, that operation is done. If its error is
  populated, \<open>generateVideo\<close> fails with a message that holds the error's details, whatever
  the result set is: the error is looked at first. If there is no error and the result set
  is absent or empty, it fails with \<open>No videos were generated\<close>.
\<close>

theorem generateVideo_done_checks:
  assumes "trim prompt \<noteq> []" and "length prompt \<le> 1000"
    and "validateVideoOptions options = Inr ()"
    and "generateVideos env (trim prompt) (genVidConfig options) = Inr op0"
    and "poll env (now w) op0 (afterSubmit w) = (Inr operation, w')"
  shows "isDone operation
    \<and> (\<forall>e. error operation = Some e \<longrightarrow>
          generateVideo env prompt options w
            = (Inl (Error (''Video generation failed: Video generation failed: '' @ e)), w'))
    \<and> (error operation = None \<and> (resultSet operation = None \<or> resultSet operation = Some []) \<longrightarrow>
          generateVideo env prompt options w
            = (Inl (Error ''Video generation failed: No videos were generated''), w'))"
proof (intro conjI allI impI)
  show "isDone operation" using assms(5) by (rule poll_Inr_done)
next
  fix e assume "error operation = Some e"
  with assms(5) show "generateVideo env prompt options w
      = (Inl (Error (''Video generation failed: Video generation failed: '' @ e)), w')"
    by (simp add: generateVideo_submitted [OF assms(1-4)] collectVideos_def catchVideo_def)
next
  assume "error operation = None \<and> (resultSet operation = None \<or> resultSet operation = Some [])"
  with assms(5) show "generateVideo env prompt options w
      = (Inl (Error ''Video generation failed: No videos were generated''), w')"
    by (auto simp: generateVideo_submitted [OF assms(1-4)] collectVideos_def catchVideo_def)
qed

theorem generateVideo_done_checks_witness:
  "generateVideo scenarioB aCat noVideoOptions (freshWorld 0)
     = (Inl (Error ''Video generation failed: Video generation failed: {code:13}''),
        \<lparr>now = 60000, submits = 1, sleeps = 4, refreshLog = [15000, 30000, 45000, 60000]\<rparr>)
   \<and> generateVideo emptyResult aCat noVideoOptions (freshWorld 0)
     = (Inl (Error ''Video generation failed: No videos were generated''),
        \<lparr>now = 0, submits = 1, sleeps = 0, refreshLog = []\<rparr>)"
proof -
  let ?failed = "runningOp\<lparr>isDone := True, error := Some ''{code:13}''\<rparr>"
  let ?bare = "runningOp\<lparr>isDone := True\<rparr>"
  have a: "generateVideos scenarioB (trim aCat) (genVidConfig noVideoOptions) = Inr runningOp"
    by (simp add: scenarioB_def exactEnv_def)
  have b: "poll scenarioB (now (freshWorld 0)) runningOp (afterSubmit (freshWorld 0))
      = (Inr ?failed,
         \<lparr>now = 60000, submits = 1, sleeps = 4, refreshLog = [15000, 30000, 45000, 60000]\<rparr>)"
    by code_simp
  have c: "error ?failed = Some ''{code:13}''"
    by (simp add: runningOp_def)
  have a': "generateVideos emptyResult (trim aCat) (genVidConfig noVideoOptions) = Inr ?bare"
    by (simp add: emptyResult_def exactEnv_def)
  have b': "poll emptyResult (now (freshWorld 0)) ?bare (afterSubmit (freshWorld 0))
      = (Inr ?bare, \<lparr>now = 0, submits = 1, sleeps = 0, refreshLog = []\<rparr>)"
    by code_simp
  have c': "error ?bare = None \<and> (resultSet ?bare = None \<or> resultSet ?bare = Some [])"
    by (simp add: runningOp_def resultSet_def)
  show ?thesis
    using generateVideo_done_checks [OF valid_aCat valid_noVideoOptions a b] c
      generateVideo_done_checks [OF valid_aCat valid_noVideoOptions a' b'] c'
    by simp
qed

section \<open>Turning result items into buffers\<close>

text \<open>
  Claim C1, as amended. When the completed operation has no error and its result set holds
  an item with a remote locator, \<open>generateVideo\<close> fails as a whole: \<open>downloadGcsFile\<close>
  throws, and the error names the first locator of the set. Inline items of the same set do
  not save the call.
\<close>

theorem generateVideo_remote_locator:
  assumes "trim prompt \<noteq> []" and "length prompt \<le> 1000"
    and "validateVideoOptions options = Inr ()"
    and "generateVideos env (trim prompt) (genVidConfig options) = Inr op0"
    and "poll env (now w) op0 (afterSubmit w) = (Inr operation, w')"
    and "error operation = None" and "resultSet operation = Some vids"
    and "List.map_filter videoLocator vids = u # us"
  shows "generateVideo env prompt options w
     = (Inl (Error (''Video generation failed: GCS file download not implemented. Cannot download from '' @ u)), w')"
proof -
  from assms(8) have "vids \<noteq> []" by auto
  with assms(6-8) have "collectVideos (fromBase64 env) operation
      = Inl (Error (''GCS file download not implemented. Cannot download from '' @ u))"
    by (simp add: collectVideos_def convertVideos_locator)
  with assms(5) show ?thesis
    by (simp add: generateVideo_submitted [OF assms(1-4)] catchVideo_def)
qed

theorem generateVideo_remote_locator_witness:
  "generateVideo scenarioD' aCat noVideoOptions (freshWorld 0)
     = (Inl (Error ''Video generation failed: GCS file download not implemented. Cannot download from gs://bucket/clip.mp4''),
        afterSubmit (freshWorld 0))"
proof -
  let ?vids = "[inlineVideo ''QUJD'', remoteVideo ''gs://bucket/clip.mp4'']"
  have a: "generateVideos scenarioD' (trim aCat) (genVidConfig noVideoOptions) = Inr (finishedOp ?vids)"
    by (simp add: scenarioD'_def exactEnv_def)
  have b: "poll scenarioD' (now (freshWorld 0)) (finishedOp ?vids) (afterSubmit (freshWorld 0))
      = (Inr (finishedOp ?vids), afterSubmit (freshWorld 0))"
    by (simp add: poll_done finishedOp_def)
  have c: "error (finishedOp ?vids) = None" "resultSet (finishedOp ?vids) = Some ?vids"
    by (simp_all add: finishedOp_def resultSet_def)
  have d: "List.map_filter videoLocator ?vids = [''gs://bucket/clip.mp4'']"
    by (simp add: videoLocator_def inlineVideo_def remoteVideo_def truthy_def)
  show ?thesis
    using generateVideo_remote_locator [OF valid_aCat valid_noVideoOptions a b c d] by simp
qed

text \<open>
  Claim C1 as stated fails: in scenario D (a remote-locator item, then an inline item) the
  call does not return one buffer, it fails.
\<close>

theorem scenarioD_fails:
  "generateVideo scenarioD aCat noVideoOptions (freshWorld 0)
     = (Inl (Error ''Video generation failed: GCS file download not implemented. Cannot download from gs://bucket/clip.mp4''),
        \<lparr>now = 0, submits = 1, sleeps = 0, refreshLog = []\<rparr>)"
  by code_simp

text \<open>
  Claim C9. An item with inline bytes and no locator always yields the same buffer, the
  decoding of its bytes, whatever the loop has collected before: converting it twice gives
  two equal buffers. This holds for the video loop and for the image loop.
\<close>

theorem normalize_twice:
  "(videoLocator v = None \<and> videoInline v = Some b \<longrightarrow>
      (\<forall>acc. convertVideos dec [v] acc = Inr (acc @ [dec b]))
      \<and> convertVideos dec [v, v] [] = Inr [dec b, dec b])
   \<and> (imageLocator g = None \<and> imageInline g = Some c \<longrightarrow>
      (\<forall>acc. convertImages dec [g] acc = Inr (acc @ [dec c]))
      \<and> convertImages dec [g, g] [] = Inr [dec c, dec c])"
  by (simp add: convertVideos_Cons convertImages_Cons
      del: convertVideos.simps(2) convertImages.simps(2))

theorem normalize_twice_witness:
  "convertVideos base64 [inlineVideo ''QUJD'', inlineVideo ''QUJD''] []
     = Inr [[0x41, 0x42, 0x43], [0x41, 0x42, 0x43]]
   \<and> convertImages base64 [inlineImage ''QUI='', inlineImage ''QUI=''] []
     = Inr [[0x41, 0x42], [0x41, 0x42]]"
proof -
  have v: "videoLocator (inlineVideo ''QUJD'') = None \<and> videoInline (inlineVideo ''QUJD'') = Some ''QUJD''"
    by (simp add: videoLocator_def videoInline_def inlineVideo_def truthy_def)
  have g: "imageLocator (inlineImage ''QUI='') = None \<and> imageInline (inlineImage ''QUI='') = Some ''QUI=''"
    by (simp add: imageLocator_def imageInline_def inlineImage_def truthy_def)
  show ?thesis
    using normalize_twice [of "inlineVideo ''QUJD''" "''QUJD''" base64 "inlineImage ''QUI=''" "''QUI=''"]
      v g base64_QUJD base64_QUI
    by simp
qed

text \<open>
  Claim C10. When any item of an image answer carries a remote locator, \<open>generateImage\<close>
  fails with the \<open>GCS URI handling not implemented\<close> error, whatever the other items
  hold. Without such an item, items with no data are left out and the call returns the
  decoded bytes of the others, in order.
\<close>

theorem generateImage_locator_or_skip:
  assumes "trim prompt \<noteq> []" and "length prompt \<le> 4000"
    and "validateImageOptions options = Inr ()"
    and "generateImages env (trim prompt) (genImConfig options) = Inr res"
    and "generatedImages res = Some imgs"
  shows "(List.map_filter imageLocator imgs \<noteq> [] \<longrightarrow>
            generateImage env prompt options w
              = (Inl (Error ''Image generation failed: GCS URI handling not implemented. Please avoid using outputGcsUri.''),
                 afterSubmit w))
       \<and> (List.map_filter imageLocator imgs = [] \<and> List.map_filter imageInline imgs \<noteq> [] \<longrightarrow>
            generateImage env prompt options w
              = (Inr (map (fromBase64 env) (List.map_filter imageInline imgs)), afterSubmit w))"
proof (intro conjI impI)
  assume loc: "List.map_filter imageLocator imgs \<noteq> []"
  then have "imgs \<noteq> []" by auto
  with loc assms(4,5) show "generateImage env prompt options w
      = (Inl (Error ''Image generation failed: GCS URI handling not implemented. Please avoid using outputGcsUri.''),
         afterSubmit w)"
    by (simp add: generateImage_submitted [OF assms(1-3)] generateImageTry_def
        convertImages_locator catchImage_def)
next
  assume inl: "List.map_filter imageLocator imgs = [] \<and> List.map_filter imageInline imgs \<noteq> []"
  then have "imgs \<noteq> []" by auto
  with inl assms(4,5) show "generateImage env prompt options w
      = (Inr (map (fromBase64 env) (List.map_filter imageInline imgs)), afterSubmit w)"
    by (simp add: generateImage_submitted [OF assms(1-3)] generateImageTry_def
        convertImages_inline)
qed

theorem generateImage_locator_or_skip_witness:
  "generateImage mixedImages aCat noImageOptions (freshWorld 0)
     = (Inl (Error ''Image generation failed: GCS URI handling not implemented. Please avoid using outputGcsUri.''),
        afterSubmit (freshWorld 0))
   \<and> generateImage inlineImages aCat noImageOptions (freshWorld 0)
     = (Inr [[0x41, 0x42, 0x43], [0x41, 0x42]], afterSubmit (freshWorld 0))"
proof -
  let ?mixed = "[inlineImage ''QUJD'', \<lparr>image = None\<rparr>, remoteImage ''gs://bucket/i.png'']"
  let ?inline = "[inlineImage ''QUJD'', \<lparr>image = None\<rparr>, inlineImage ''QUI='']"
  have cat: "trim aCat \<noteq> []" "length aCat \<le> 4000"
    by (simp_all add: aCat_def trim_def isWhiteSpace_def)
  have a: "generateImages mixedImages (trim aCat) (genImConfig noImageOptions)
      = Inr \<lparr>generatedImages = Some ?mixed\<rparr>"
    by (simp add: mixedImages_def exactEnv_def)
  have b: "List.map_filter imageLocator ?mixed \<noteq> []"
    by (simp add: imageLocator_def inlineImage_def remoteImage_def truthy_def)
  have a': "generateImages inlineImages (trim aCat) (genImConfig noImageOptions)
      = Inr \<lparr>generatedImages = Some ?inline\<rparr>"
    by (simp add: inlineImages_def exactEnv_def)
  have b': "List.map_filter imageLocator ?inline = []"
    by (simp add: imageLocator_def inlineImage_def truthy_def)
  have c': "map (fromBase64 inlineImages) (List.map_filter imageInline ?inline)
      = [[0x41, 0x42, 0x43], [0x41, 0x42]]"
    by (simp add: imageInline_def inlineImage_def truthy_def inlineImages_def exactEnv_def
        base64_QUJD base64_QUI)
  have d': "List.map_filter imageInline ?inline \<noteq> []"
    by (simp add: imageInline_def inlineImage_def truthy_def)
  have r: "generatedImages \<lparr>generatedImages = Some ?mixed\<rparr> = Some ?mixed"
    "generatedImages \<lparr>generatedImages = Some ?inline\<rparr> = Some ?inline"
    by simp_all
  have "generateImage mixedImages aCat noImageOptions (freshWorld 0)
     = (Inl (Error ''Image generation failed: GCS URI handling not implemented. Please avoid using outputGcsUri.''),
        afterSubmit (freshWorld 0))"
    using generateImage_locator_or_skip [OF cat valid_noImageOptions a r(1), of "freshWorld 0"] b
    by blast
  moreover have "generateImage inlineImages aCat noImageOptions (freshWorld 0)
     = (Inr (map (fromBase64 inlineImages) (List.map_filter imageInline ?inline)),
        afterSubmit (freshWorld 0))"
    using generateImage_locator_or_skip [OF cat valid_noImageOptions a' r(2), of "freshWorld 0"]
      b' d'
    by blast
  ultimately show ?thesis by (simp only: c')
qed

end
